theory Spec2Isabelle
  imports Main "HOL-Library.AList"
begin

section \<open>Python values, exceptions and library calls\<close>

text \<open>
  The exceptions that \<open>parse_tcx.py\<close> can raise. The module defines no exception
  class of its own: every failure is one of Python's built-in exceptions, raised by a
  library call or by dereferencing \<open>None\<close>.
\<close>

datatype error = AttributeError | TypeError | ValueError | KeyError | IndexError | NameError

text \<open>Sequencing of a computation that may raise: the first exception wins.\<close>

fun and_then :: "error + 'a \<Rightarrow> ('a \<Rightarrow> error + 'b) \<Rightarrow> error + 'b" where
  "and_then (Inl e) f = Inl e"
| "and_then (Inr x) f = f x"

text \<open>
  A timestamp as \<open>pd.to_datetime\<close> returns it: an instant in microseconds, either
  naive or with the instant given in UTC. The values kept in the dictionaries and tables
  are naive local times, again in microseconds.
\<close>

datatype timestamp = Naive int | Aware int

text \<open>
  The values stored under the keys of the extracted dictionaries. The type \<open>'f\<close> stands
  for Python's \<open>float\<close>: its literal grammar and rounding belong to the interpreter and
  are parameters of the model.
\<close>

datatype 'f pyval = PFloat 'f | PInt int | PTime int

text \<open>
  What the interpreter and the libraries supply:
  \<^item> \<open>to_datetime\<close>: \<open>pd.to_datetime\<close> on a string (\<open>None\<close> when it cannot be parsed);
  \<^item> \<open>utcoffset\<close>: the offset of \<open>tzlocal.get_localzone()\<close> at a UTC instant;
  \<^item> \<open>float_lit\<close>, \<open>int_lit\<close>: the value of a stripped, non-empty numeric literal
    (\<open>None\<close> when it is not one);
  \<^item> \<open>float_int\<close>: \<open>float\<close> applied to an \<open>int\<close>.
\<close>

record 'f lib =
  to_datetime :: "string \<Rightarrow> timestamp option"
  utcoffset :: "int \<Rightarrow> int"
  float_lit :: "string \<Rightarrow> 'f option"
  float_int :: "int \<Rightarrow> 'f"
  int_lit :: "string \<Rightarrow> int option"

definition is_space :: "char \<Rightarrow> bool" where
  "is_space c \<longleftrightarrow> c \<in> set [CHR '' '', CHR 0x09, CHR 0x0A, CHR 0x0B, CHR 0x0C, CHR 0x0D]"

definition strip :: "string \<Rightarrow> string" where
  "strip s = rev (dropWhile is_space (rev (dropWhile is_space s)))"

text \<open>
  \<open>float(x)\<close> and \<open>int(x)\<close> for \<open>x\<close> the text of an element: \<open>None\<close> raises
  TypeError; a string is stripped of surrounding whitespace and read as a literal,
  ValueError when nothing is left or when it is not a literal.
\<close>

definition py_float :: "'f lib \<Rightarrow> string option \<Rightarrow> error + 'f" where
  "py_float L x =
     (case x of
        None \<Rightarrow> Inl TypeError
      | Some s \<Rightarrow>
          (if strip s = [] then Inl ValueError
           else case float_lit L (strip s) of None \<Rightarrow> Inl ValueError | Some v \<Rightarrow> Inr v))"

definition py_int :: "'f lib \<Rightarrow> string option \<Rightarrow> error + int" where
  "py_int L x =
     (case x of
        None \<Rightarrow> Inl TypeError
      | Some s \<Rightarrow>
          (if strip s = [] then Inl ValueError
           else case int_lit L (strip s) of None \<Rightarrow> Inl ValueError | Some v \<Rightarrow> Inr v))"

section \<open>XML elements\<close>

text \<open>
  An \<open>lxml\<close> element: a qualified tag (namespace URI and local name), its attributes,
  its text (\<open>None\<close> for an element without text) and its child elements in document
  order. Comments and processing instructions, which \<open>lxml\<close> also keeps among the
  children, are not represented.
\<close>

type_synonym qname = "string \<times> string"

datatype element =
  Element (tag: qname) (attrib: "(string \<times> string) list") (text_of: "string option")
    (children: "element list")

definition NAMESPACES :: "(string \<times> string) list" where
  "NAMESPACES =
     [(''ns'', ''http://www.garmin.com/xmlschemas/TrainingCenterDatabase/v2''),
      (''ns2'', ''http://www.garmin.com/xmlschemas/UserProfile/v2''),
      (''ns3'', ''http://www.garmin.com/xmlschemas/ActivityExtension/v2''),
      (''ns4'', ''http://www.garmin.com/xmlschemas/ProfileExtension/v1''),
      (''ns5'', ''http://www.garmin.com/xmlschemas/ActivityGoals/v1'')]"

text \<open>The qualified name that a path step \<open>prefix:local\<close> selects under \<open>NAMESPACES\<close>.\<close>

definition ns :: "string \<Rightarrow> qname" where
  "ns l = (the (map_of NAMESPACES ''ns''), l)"

definition ns3 :: "string \<Rightarrow> qname" where
  "ns3 l = (the (map_of NAMESPACES ''ns3''), l)"

text \<open>\<open>e.find('p:l')\<close>: the first child with that tag; \<open>e.findall('p:l')\<close>: all of them.\<close>

definition find_child :: "qname \<Rightarrow> element \<Rightarrow> element option" where
  "find_child t e = List.find (\<lambda>c. tag c = t) (children e)"

definition findall :: "qname \<Rightarrow> element \<Rightarrow> element list" where
  "findall t e = filter (\<lambda>c. tag c = t) (children e)"

text \<open>
  \<open>e.find('.//p:l')\<close>: the first element with that tag among all descendants of \<open>e\<close>,
  in document order.
\<close>

fun descendants :: "element \<Rightarrow> element list" where
  "descendants (Element t a x cs) = concat (map (\<lambda>c. c # descendants c) cs)"

definition find_rec :: "qname \<Rightarrow> element \<Rightarrow> element option" where
  "find_rec t e = List.find (\<lambda>c. tag c = t) (descendants e)"

section \<open>Field extraction\<close>

text \<open>
  A Python \<open>dict\<close> with string keys: the keys in insertion order, each once. Assigning
  \<open>data[k] = v\<close> is \<open>AList.update k v data\<close>.
\<close>

type_synonym 'f dict = "(string \<times> 'f pyval) list"

text \<open>
  \<open>convert_local\<close>: parse, convert to the local zone, drop the zone.
  \<open>pd.to_datetime(None)\<close> is \<open>None\<close>, so the following \<open>astimezone\<close> raises
  AttributeError; \<open>astimezone\<close> on a naive timestamp raises TypeError. The calls of
  \<open>log.debug\<close> in the extractors and in the walker are left out.
\<close>

definition convert_local :: "'f lib \<Rightarrow> string option \<Rightarrow> error + int" where
  "convert_local L str_datetime =
     (case str_datetime of
        None \<Rightarrow> Inl AttributeError
      | Some s \<Rightarrow>
          (case to_datetime L s of
             None \<Rightarrow> Inl ValueError
           | Some (Naive t) \<Rightarrow> Inl TypeError
           | Some (Aware u) \<Rightarrow> Inr (u + utcoffset L u)))"

text \<open>
  The pattern \<open>if elem is not None: data[k] = conv(elem)\<close> of both extractors.
\<close>

fun opt_field ::
  "string \<Rightarrow> (element \<Rightarrow> error + 'f pyval) \<Rightarrow> element option \<Rightarrow> 'f dict \<Rightarrow> error + 'f dict"
where
  "opt_field k conv None data = Inr data"
| "opt_field k conv (Some e) data = and_then (conv e) (\<lambda>v. Inr (AList.update k v data))"

text \<open>\<open>conv(elem.text)\<close> and \<open>conv(elem.find('ns:Value', NAMESPACES).text)\<close>.\<close>

definition float_text :: "'f lib \<Rightarrow> element \<Rightarrow> error + 'f pyval" where
  "float_text L e = and_then (py_float L (text_of e)) (\<lambda>v. Inr (PFloat v))"

definition int_text :: "'f lib \<Rightarrow> element \<Rightarrow> error + 'f pyval" where
  "int_text L e = and_then (py_int L (text_of e)) (\<lambda>v. Inr (PInt v))"

definition value_of :: "(element \<Rightarrow> error + 'f pyval) \<Rightarrow> element \<Rightarrow> error + 'f pyval" where
  "value_of conv e =
     (case find_child (ns ''Value'') e of None \<Rightarrow> Inl AttributeError | Some v \<Rightarrow> conv v)"

text \<open>\<open>float(watt_elem.text or 0)\<close>: \<open>None\<close> and the empty string are falsy.\<close>

definition watt_text :: "'f lib \<Rightarrow> element \<Rightarrow> error + 'f pyval" where
  "watt_text L e =
     (case text_of e of
        None \<Rightarrow> Inr (PFloat (float_int L 0))
      | Some s \<Rightarrow> if s = [] then Inr (PFloat (float_int L 0)) else float_text L e)"

definition get_tcx_lap_data :: "'f lib \<Rightarrow> element \<Rightarrow> error + 'f dict" where
  "get_tcx_lap_data L lap =
     (case map_of (attrib lap) ''StartTime'' of
        None \<Rightarrow> Inl KeyError
      | Some start_time_str \<Rightarrow>
          and_then (convert_local L (Some start_time_str)) (\<lambda>st.
          and_then (opt_field ''distance'' (float_text L)
                 (find_child (ns ''DistanceMeters'') lap) [(''start_time'', PTime st)]) (\<lambda>data.
          and_then (opt_field ''calories'' (int_text L)
                 (find_child (ns ''Calories'') lap) data) (\<lambda>data.
          and_then (opt_field ''total_time'' (float_text L)
                 (find_child (ns ''TotalTimeSeconds'') lap) data) (\<lambda>data.
          and_then (opt_field ''max_speed'' (float_text L)
                 (find_child (ns ''MaximumSpeed'') lap) data) (\<lambda>data.
          and_then (opt_field ''max_hr'' (value_of (float_text L))
                 (find_child (ns ''MaximumHeartRateBpm'') lap) data) (\<lambda>data.
          opt_field ''avg_hr'' (value_of (float_text L))
                 (find_child (ns ''AverageHeartRateBpm'') lap) data)))))))"

definition get_tcx_trackpoint_data :: "'f lib \<Rightarrow> element \<Rightarrow> error + 'f dict" where
  "get_tcx_trackpoint_data L trackpoint =
     (case find_child (ns ''Time'') trackpoint of
        None \<Rightarrow> Inl AttributeError
      | Some time_elem \<Rightarrow>
          and_then (convert_local L (text_of time_elem)) (\<lambda>t.
          and_then (opt_field ''cadence'' (float_text L)
                 (find_child (ns ''Cadence'') trackpoint) [(''time'', PTime t)]) (\<lambda>data.
          and_then (opt_field ''distance'' (float_text L)
                 (find_child (ns ''DistanceMeters'') trackpoint) data) (\<lambda>data.
          and_then (opt_field ''heart_rate'' (value_of (int_text L))
                 (find_child (ns ''HeartRateBpm'') trackpoint) data) (\<lambda>data.
          opt_field ''watt'' (watt_text L)
                 (find_rec (ns3 ''Watts'') trackpoint) data)))))"

section \<open>Tables\<close>

text \<open>
  A \<open>pandas\<close> DataFrame: the index, the column names in order and the rows, each row a
  list of cells aligned with the columns. A cell is a value or missing (\<open>NaN\<close>/\<open>NaT\<close>),
  written \<open>None\<close>.
\<close>

type_synonym 'f cell = "'f pyval option"

record 'f dataframe =
  df_index_name :: "string option"
  df_index :: "'f cell list"
  df_columns :: "string list"
  df_rows :: "'f cell list list"

definition LAPS_COLUMN_NAMES :: "string list" where
  "LAPS_COLUMN_NAMES =
     [''number'', ''start_time'', ''distance'', ''calories'', ''total_time'', ''max_speed'',
      ''max_hr'', ''avg_hr'']"

definition TRACKPOINT_COLUMN_NAMES :: "string list" where
  "TRACKPOINT_COLUMN_NAMES = [''time'', ''distance'', ''heart_rate'', ''watt'', ''cadence'']"

text \<open>
  \<open>pd.DataFrame(data, columns=cols)\<close> for a list of dictionaries: one row per
  dictionary, exactly the columns \<open>cols\<close>; a key that is no column is dropped, a column
  that is no key is missing in that row. The index is \<open>0, 1, ...\<close>.
\<close>

definition DataFrame :: "'f dict list \<Rightarrow> string list \<Rightarrow> 'f dataframe" where
  "DataFrame data cols =
     \<lparr>df_index_name = None,
      df_index = map (\<lambda>i. Some (PInt (int i))) [0..<length data],
      df_columns = cols,
      df_rows = map (\<lambda>d. map (map_of d) cols) data\<rparr>"

fun index_of :: "'a \<Rightarrow> 'a list \<Rightarrow> nat option" where
  "index_of k [] = None"
| "index_of k (x # xs) = (if x = k then Some 0 else map_option Suc (index_of k xs))"

definition drop_nth :: "nat \<Rightarrow> 'a list \<Rightarrow> 'a list" where
  "drop_nth j xs = take j xs @ drop (Suc j) xs"

text \<open>\<open>df.set_index(k)\<close>: column \<open>k\<close> becomes the index and leaves the columns.\<close>

definition set_index :: "string \<Rightarrow> 'f dataframe \<Rightarrow> error + 'f dataframe" where
  "set_index k df =
     (case index_of k (df_columns df) of
        None \<Rightarrow> Inl KeyError
      | Some j \<Rightarrow>
          Inr \<lparr>df_index_name = Some k,
               df_index = map (\<lambda>r. r ! j) (df_rows df),
               df_columns = drop_nth j (df_columns df),
               df_rows = map (drop_nth j) (df_rows df)\<rparr>)"

section \<open>The document walker\<close>

text \<open>
  The inner loop of \<open>get_dataframes\<close> over the trackpoints of one lap: \<open>points_data\<close>
  is the list being appended to. A dictionary is truthy when it is not empty.
\<close>

fun points_loop ::
  "'f lib \<Rightarrow> int \<Rightarrow> element list \<Rightarrow> 'f dict list \<Rightarrow> error + 'f dict list"
where
  "points_loop L lap_no [] points_data = Inr points_data"
| "points_loop L lap_no (point # rest) points_data =
     and_then (get_tcx_trackpoint_data L point) (\<lambda>single_point_data.
       points_loop L lap_no rest
         (if single_point_data \<noteq> []
          then points_data @ [AList.update ''lap'' (PInt lap_no) single_point_data]
          else points_data))"

text \<open>
  The outer loop over the laps, with the state \<open>(laps_data, points_data)\<close> and the
  counter \<open>lap_no\<close>. \<open>track.findall\<close> on a missing track dereferences \<open>None\<close>.
\<close>

fun laps_loop ::
  "'f lib \<Rightarrow> int \<Rightarrow> element list \<Rightarrow> 'f dict list \<times> 'f dict list \<Rightarrow>
     error + ('f dict list \<times> 'f dict list)"
where
  "laps_loop L lap_no [] st = Inr st"
| "laps_loop L lap_no (lap # rest) (laps_data, points_data) =
     and_then (get_tcx_lap_data L lap) (\<lambda>single_lap_data.
       (case find_child (ns ''Track'') lap of
          None \<Rightarrow> Inl AttributeError
        | Some track \<Rightarrow>
            and_then (points_loop L lap_no (findall (ns ''Trackpoint'') track) points_data)
              (\<lambda>points_data'.
                 laps_loop L (lap_no + 1) rest
                   (laps_data @ [AList.update ''number'' (PInt lap_no) single_lap_data],
                    points_data'))))"

text \<open>
  \<open>root.find('ns:Activities', NAMESPACES)[0]\<close>: subscripting \<open>None\<close> raises TypeError,
  an element without children IndexError; otherwise the first child, whatever its tag.
\<close>

definition first_activity :: "element \<Rightarrow> error + element" where
  "first_activity root =
     (case find_child (ns ''Activities'') root of
        None \<Rightarrow> Inl TypeError
      | Some activities \<Rightarrow>
          (case children activities of [] \<Rightarrow> Inl IndexError | activity # _ \<Rightarrow> Inr activity))"

text \<open>The two lists as they are when the loops of \<open>get_dataframes\<close> end.\<close>

definition collect :: "'f lib \<Rightarrow> element \<Rightarrow> error + ('f dict list \<times> 'f dict list)" where
  "collect L root =
     and_then (first_activity root) (\<lambda>activity.
       laps_loop L 1 (findall (ns ''Lap'') activity) ([], []))"

text \<open>\<open>get_dataframes\<close>, from the root of the parsed document on.\<close>

definition get_dataframes :: "'f lib \<Rightarrow> element \<Rightarrow> error + ('f dataframe \<times> 'f dataframe)" where
  "get_dataframes L root =
     and_then (collect L root) (\<lambda>(laps_data, points_data).
     and_then (set_index ''number'' (DataFrame laps_data LAPS_COLUMN_NAMES)) (\<lambda>laps_df.
       Inr (laps_df, DataFrame points_data TRACKPOINT_COLUMN_NAMES)))"

section \<open>Alignment and merge of the two devices\<close>

text \<open>
  The table operations the script uses. The time columns hold \<open>PTime\<close> cells; a cell
  that holds no time counts as missing.
\<close>

definition time_key :: "'f cell \<Rightarrow> int option" where
  "time_key c = (case c of Some (PTime t) \<Rightarrow> Some t | _ \<Rightarrow> None)"

text \<open>\<open>pd.concat(frames)\<close> for frames with the same columns; no frame raises ValueError.\<close>

definition concat_frames :: "'f dataframe list \<Rightarrow> error + 'f dataframe" where
  "concat_frames dfs =
     (case dfs of
        [] \<Rightarrow> Inl ValueError
      | df # _ \<Rightarrow>
          Inr \<lparr>df_index_name = df_index_name df,
               df_index = concat (map df_index dfs),
               df_columns = df_columns df,
               df_rows = concat (map df_rows dfs)\<rparr>)"

text \<open>\<open>df[k]\<close>: the cells of column \<open>k\<close>, KeyError when there is no such column.\<close>

definition column :: "string \<Rightarrow> 'f dataframe \<Rightarrow> error + 'f cell list" where
  "column k df =
     (case index_of k (df_columns df) of
        None \<Rightarrow> Inl KeyError
      | Some j \<Rightarrow> Inr (map (\<lambda>r. r ! j) (df_rows df)))"

text \<open>
  \<open>df.sort_values(by=k, ascending=True)\<close> on a time column: the rows with a time in
  ascending order, the rows without one last; each row keeps its index label. Rows with
  equal times keep their relative order here, where \<open>pandas\<close> leaves it to the sorting
  algorithm.
\<close>

definition sort_values :: "string \<Rightarrow> 'f dataframe \<Rightarrow> error + 'f dataframe" where
  "sort_values k df =
     (case index_of k (df_columns df) of
        None \<Rightarrow> Inl KeyError
      | Some j \<Rightarrow>
          (let labelled = zip (df_index df) (df_rows df);
               present = filter (\<lambda>(i, r). time_key (r ! j) \<noteq> None) labelled;
               missing = filter (\<lambda>(i, r). time_key (r ! j) = None) labelled;
               sorted_rows = sort_key (\<lambda>(i, r). the (time_key (r ! j))) present @ missing
           in Inr (df\<lparr>df_index := map fst sorted_rows, df_rows := map snd sorted_rows\<rparr>)))"

text \<open>\<open>series.min()\<close> on a time column: the least time present, \<open>NaT\<close> when none is.\<close>

definition series_min :: "'f cell list \<Rightarrow> int option" where
  "series_min cells =
     (case List.map_filter time_key cells of
        [] \<Rightarrow> None
      | t # ts \<Rightarrow> Some (fold min ts t))"

text \<open>
  \<open>df[k] = df[k] + timedelta(seconds=d)\<close>, with \<open>d\<close> in microseconds; a missing time
  stays missing. The script passes the difference through \<open>total_seconds()\<close>, a float
  number of seconds, and back through \<open>timedelta\<close>; that round trip is taken to be exact.
\<close>

definition shift_cell :: "int \<Rightarrow> 'f cell \<Rightarrow> 'f cell" where
  "shift_cell d c = (case c of Some (PTime t) \<Rightarrow> Some (PTime (t + d)) | _ \<Rightarrow> c)"

definition shift_column :: "string \<Rightarrow> int \<Rightarrow> 'f dataframe \<Rightarrow> error + 'f dataframe" where
  "shift_column k d df =
     (case index_of k (df_columns df) of
        None \<Rightarrow> Inl KeyError
      | Some j \<Rightarrow> Inr (df\<lparr>df_rows := map (\<lambda>r. r[j := shift_cell d (r ! j)]) (df_rows df)\<rparr>))"

text \<open>\<open>df[[c1, ..., cn]]\<close>: the named columns in the order given.\<close>

definition select :: "string list \<Rightarrow> 'f dataframe \<Rightarrow> error + 'f dataframe" where
  "select cols df =
     (if \<exists>c \<in> set cols. index_of c (df_columns df) = None then Inl KeyError
      else Inr (df\<lparr>df_columns := cols,
                    df_rows := map (\<lambda>r. map (\<lambda>c. r ! the (index_of c (df_columns df))) cols)
                                 (df_rows df)\<rparr>))"

text \<open>
  \<open>pd.merge_asof(left, right, on=on, by=by)\<close> with the defaults (backward direction,
  exact matches allowed). Both key columns must be free of missing values and sorted,
  else ValueError. To each left row the function joins the last right row whose key is
  at most the left key and, when \<open>by\<close> is given, whose \<open>by\<close> cell equals the left row's
  \<open>by\<close> cell; without such a row the joined cells are missing. The result has the left
  columns followed by the right columns other than \<open>on\<close> and \<open>by\<close>. The columns
  \<open>duration\<close> and \<open>hhmmss_1\<close> that the script derives from the merged times afterwards are
  not part of this table.
\<close>

definition merge_asof ::
  "'f dataframe \<Rightarrow> 'f dataframe \<Rightarrow> string \<Rightarrow> string option \<Rightarrow> error + 'f dataframe"
where
  "merge_asof left right on by =
     (case (index_of on (df_columns left), index_of on (df_columns right)) of
        (Some lj, Some rj) \<Rightarrow>
          (let by_ok = (case by of None \<Rightarrow> True
                        | Some b \<Rightarrow> index_of b (df_columns left) \<noteq> None \<and>
                                   index_of b (df_columns right) \<noteq> None);
               lkeys = map (\<lambda>r. time_key (r ! lj)) (df_rows left);
               rkeys = map (\<lambda>r. time_key (r ! rj)) (df_rows right);
               same_group = (\<lambda>l r. case by of None \<Rightarrow> True
                        | Some b \<Rightarrow> l ! the (index_of b (df_columns left)) =
                                   r ! the (index_of b (df_columns right)));
               others = filter (\<lambda>c. c \<noteq> on \<and> Some c \<noteq> by) (df_columns right);
               joined = (\<lambda>l.
                  case filter (\<lambda>r. the (time_key (r ! rj)) \<le> the (time_key (l ! lj)) \<and>
                                    same_group l r) (df_rows right) of
                    [] \<Rightarrow> l @ map (\<lambda>c. None) others
                  | m # ms \<Rightarrow>
                      l @ map (\<lambda>c. last (m # ms) ! the (index_of c (df_columns right))) others)
           in if \<not> by_ok then Inl KeyError
              else if None \<in> set lkeys \<or> None \<in> set rkeys then Inl ValueError
              else if \<not> sorted (map the lkeys) \<or> \<not> sorted (map the rkeys) then Inl ValueError
              else Inr \<lparr>df_index_name = None,
                        df_index = map (\<lambda>i. Some (PInt (int i))) [0..<length (df_rows left)],
                        df_columns = df_columns left @ others,
                        df_rows = map joined (df_rows left)\<rparr>)
      | _ \<Rightarrow> Inl KeyError)"

text \<open>
  The loop of the script over the directory listing, here the file names with the roots
  of the parsed documents. The state is the two lists for the rowing computer (files
  named \<open>concept2...\<close>) and the tables of the last wrist-device file (\<open>activity...\<close>), which
  are unbound until such a file is seen.
\<close>

definition startswith :: "string \<Rightarrow> string \<Rightarrow> bool" where
  "startswith s p \<longleftrightarrow> take (length p) s = p"

type_synonym 'f tables = "'f dataframe \<times> 'f dataframe"

fun load_loop ::
  "'f lib \<Rightarrow> (string \<times> element) list \<Rightarrow> 'f tables list \<times> 'f tables option \<Rightarrow>
     error + ('f tables list \<times> 'f tables option)"
where
  "load_loop L [] st = Inr st"
| "load_loop L ((file, root) # rest) (concept2, garmin) =
     and_then (if startswith file ''concept2''
               then and_then (get_dataframes L root) (\<lambda>t. Inr (concept2 @ [t]))
               else Inr concept2) (\<lambda>concept2'.
     and_then (if startswith file ''activity''
               then and_then (get_dataframes L root) (\<lambda>t. Inr (Some t))
               else Inr garmin) (\<lambda>garmin'.
       load_loop L rest (concept2', garmin')))"

text \<open>
  What the script has computed when \<open>pd.merge_asof\<close> has returned: the tables of the
  wrist device as loaded, the offset in microseconds, the shifted tables of the rowing
  computer and the merged table. A missing start time on either side makes the
  difference \<open>NaT\<close>, whose seconds \<open>timedelta\<close> rejects with ValueError. Printing, logging
  and the spreadsheet writer are left out.
\<close>

record 'f aligned =
  laps_df_garmin :: "'f dataframe"
  points_df_garmin :: "'f dataframe"
  total_seconds :: int
  laps_df_concept2 :: "'f dataframe"
  points_df_concept2 :: "'f dataframe"
  merged_dataframe :: "'f dataframe"

definition align ::
  "'f tables \<Rightarrow> 'f dataframe \<Rightarrow> 'f dataframe \<Rightarrow> error + 'f aligned"
where
  "align garmin laps_c2 points_c2 =
     and_then (column ''start_time'' (fst garmin)) (\<lambda>garmin_starts.
     and_then (column ''start_time'' laps_c2) (\<lambda>concept2_starts.
       (case (series_min garmin_starts, series_min concept2_starts) of
          (Some garmin_start, Some concept2_start) \<Rightarrow>
            (let difference = garmin_start - concept2_start in
             and_then (shift_column ''start_time'' difference laps_c2) (\<lambda>laps_c2'.
             and_then (shift_column ''time'' difference points_c2) (\<lambda>points_c2'.
             and_then (select [''time'', ''distance'', ''watt'', ''cadence''] points_c2') (\<lambda>left.
             and_then (select [''time'', ''heart_rate''] (snd garmin)) (\<lambda>right.
             and_then (merge_asof left right ''time'' (Some ''time'')) (\<lambda>merged.
               Inr \<lparr>laps_df_garmin = fst garmin,
                    points_df_garmin = snd garmin,
                    total_seconds = difference,
                    laps_df_concept2 = laps_c2',
                    points_df_concept2 = points_c2',
                    merged_dataframe = merged\<rparr>))))))
        | _ \<Rightarrow> Inl ValueError)))"

definition main :: "'f lib \<Rightarrow> (string \<times> element) list \<Rightarrow> error + 'f aligned" where
  "main L files =
     and_then (load_loop L files ([], None)) (\<lambda>(concept2, garmin).
     and_then (concat_frames (map fst concept2)) (\<lambda>laps_all.
     and_then (concat_frames (map snd concept2)) (\<lambda>points_all.
     and_then (sort_values ''start_time'' laps_all) (\<lambda>laps_c2.
     and_then (sort_values ''time'' points_all) (\<lambda>points_c2.
       (case garmin of
          None \<Rightarrow> Inl NameError
        | Some g \<Rightarrow> align g laps_c2 points_c2))))))"

section \<open>Auxiliary views of the extractors\<close>

text \<open>
  The optional fields of a lap and the directly matched optional fields of a trackpoint,
  as a table of key, conversion and tag in the order of the source, and the run of the
  \<open>if elem is not None\<close> steps over such a table.
\<close>

type_synonym 'f field = "string \<times> (element \<Rightarrow> error + 'f pyval) \<times> qname"



fun opt_fields :: "'f field list \<Rightarrow> element \<Rightarrow> 'f dict \<Rightarrow> error + 'f dict" where
  "opt_fields [] e data = Inr data"
| "opt_fields ((k, conv, t) # fs) e data =
     and_then (opt_field k conv (find_child t e) data) (opt_fields fs e)"


definition is_ok :: "error + 'a \<Rightarrow> bool" where
  "is_ok r = (case r of Inl e \<Rightarrow> False | Inr v \<Rightarrow> True)"

definition fields_convert :: "'f field list \<Rightarrow> element \<Rightarrow> bool" where
  "fields_convert fs e =
     list_all (\<lambda>(k, conv, t). case find_child t e of None \<Rightarrow> True | Some c \<Rightarrow> is_ok (conv c)) fs"




section \<open>An interpreter and documents for the examples\<close>

text \<open>
  A small interpreter for the concrete evaluations below: unsigned and signed decimal
  integers, decimal numbers kept as mantissa and number of fraction digits, three
  timestamps, and a local zone one hour ahead of UTC.
\<close>

datatype decimal = Decimal int nat

definition digit_val :: "char \<Rightarrow> nat option" where
  "digit_val c =
     (let n = (of_char c :: nat) in if 48 \<le> n \<and> n \<le> 57 then Some (n - 48) else None)"

fun digits :: "string \<Rightarrow> nat \<Rightarrow> nat option" where
  "digits [] n = Some n"
| "digits (c # cs) n = (case digit_val c of None \<Rightarrow> None | Some d \<Rightarrow> digits cs (10 * n + d))"

definition nat_lit :: "string \<Rightarrow> nat option" where
  "nat_lit s = (if s = [] then None else digits s 0)"

definition example_int_lit :: "string \<Rightarrow> int option" where
  "example_int_lit s =
     (case s of
        [] \<Rightarrow> None
      | c # cs \<Rightarrow>
          if c = CHR ''-'' then map_option (\<lambda>n. - int n) (nat_lit cs)
          else map_option int (nat_lit s))"

definition example_float_lit :: "string \<Rightarrow> decimal option" where
  "example_float_lit s =
     (let whole = takeWhile (\<lambda>c. c \<noteq> CHR ''.'') s;
          frac = drop 1 (dropWhile (\<lambda>c. c \<noteq> CHR ''.'') s)
      in case nat_lit (whole @ frac) of
           None \<Rightarrow> None
         | Some m \<Rightarrow> if whole = [] then None else Some (Decimal (int m) (length frac)))"

definition example_lib :: "decimal lib" where
  "example_lib =
     \<lparr>to_datetime = map_of
        [(''2022-01-03T14:00:00Z'', Aware 1641218400000000),
         (''2022-01-03T14:00:01Z'', Aware 1641218401000000),
         (''2022-01-03T14:10:00Z'', Aware 1641219000000000)],
      utcoffset = (\<lambda>u. 3600000000),
      float_lit = example_float_lit,
      float_int = (\<lambda>n. Decimal n 0),
      int_lit = example_int_lit\<rparr>"

definition leaf :: "qname \<Rightarrow> string \<Rightarrow> element" where
  "leaf t s = Element t [] (Some s) []"

definition node :: "qname \<Rightarrow> element list \<Rightarrow> element" where
  "node t cs = Element t [] None cs"








definition example_doc_no_track :: element where
  "example_doc_no_track =
     node (ns ''TrainingCenterDatabase'')
       [node (ns ''Activities'')
          [node (ns ''Activity'')
             [Element (ns ''Lap'') [(''StartTime'', ''2022-01-03T14:00:00Z'')] None
                [node (ns ''Track'') []],
              Element (ns ''Lap'') [(''StartTime'', ''2022-01-03T14:10:00Z'')] None
                [leaf (ns ''Calories'') ''12'']]]]"


text \<open>A table is well formed when every row has one cell per column.\<close>

definition wf_frame :: "'f dataframe \<Rightarrow> bool" where
  "wf_frame df \<longleftrightarrow> list_all (\<lambda>r. length r = length (df_columns df)) (df_rows df)"

text \<open>
  Tables for the examples of the alignment, with times in microseconds since midnight:
  the wrist device (A) has laps starting at 10:10:05 and 10:00:05 and heart-rate samples
  at 10:00:05 (100) and 10:00:15 (110); the rowing computer (B) has a lap starting at
  09:58:00 and samples at 09:58:03 and 09:58:12.
\<close>

definition example_laps_a :: "decimal dataframe" where
  "example_laps_a =
     \<lparr>df_index_name = Some ''number'',
      df_index = [Some (PInt 1), Some (PInt 2)],
      df_columns = [''start_time'', ''distance'', ''calories'', ''total_time'', ''max_speed'',
                    ''max_hr'', ''avg_hr''],
      df_rows = [[Some (PTime 36605000000), None, None, None, None, None, None],
                 [Some (PTime 36005000000), None, None, None, None, None, None]]\<rparr>"

definition example_points_a :: "decimal dataframe" where
  "example_points_a =
     \<lparr>df_index_name = None,
      df_index = [Some (PInt 0), Some (PInt 1)],
      df_columns = [''time'', ''distance'', ''heart_rate'', ''watt'', ''cadence''],
      df_rows = [[Some (PTime 36005000000), None, Some (PInt 100), None, None],
                 [Some (PTime 36015000000), None, Some (PInt 110), None, None]]\<rparr>"

definition example_laps_b :: "decimal dataframe" where
  "example_laps_b =
     \<lparr>df_index_name = Some ''number'',
      df_index = [Some (PInt 1)],
      df_columns = [''start_time'', ''distance'', ''calories'', ''total_time'', ''max_speed'',
                    ''max_hr'', ''avg_hr''],
      df_rows = [[Some (PTime 35880000000), None, None, None, None, None, None]]\<rparr>"

definition example_points_b :: "decimal dataframe" where
  "example_points_b =
     \<lparr>df_index_name = None,
      df_index = [Some (PInt 0), Some (PInt 1)],
      df_columns = [''time'', ''distance'', ''heart_rate'', ''watt'', ''cadence''],
      df_rows = [[Some (PTime 35883000000), Some (PFloat (Decimal 105 1)), None,
                  Some (PFloat (Decimal 180 0)), None],
                 [Some (PTime 35892000000), Some (PFloat (Decimal 420 1)), None,
                  Some (PFloat (Decimal 185 0)), None]]\<rparr>"

section \<open>Sequencing\<close>


lemma and_then_Inr_iff: "and_then m f = Inr y \<longleftrightarrow> (\<exists>x. m = Inr x \<and> f x = Inr y)"
  by (cases m) simp_all


section \<open>A trackpoint without a time\<close>

text \<open>
  Claim C6, as amended. For every trackpoint node without a \<open>Time\<close> child the
  extraction raises: \<open>find\<close> returns \<open>None\<close> and reading its \<open>text\<close> is an
  AttributeError. There is no fallback and no dictionary is returned. The module has no
  exception named MissingFieldError.
\<close>

theorem trackpoint_without_time_raises:
  assumes "find_child (ns ''Time'') trackpoint = None"
  shows "get_tcx_trackpoint_data L trackpoint = Inl AttributeError"
  using assms by (simp add: get_tcx_trackpoint_data_def)

theorem trackpoint_without_time_raises_witness:
  "get_tcx_trackpoint_data example_lib
     (node (ns ''Trackpoint'') [leaf (ns ''DistanceMeters'') ''12.5'']) = Inl AttributeError"
proof -
  have "find_child (ns ''Time'')
          (node (ns ''Trackpoint'') [leaf (ns ''DistanceMeters'') ''12.5'']) = None"
    by (simp add: find_child_def node_def leaf_def ns_def)
  then show ?thesis by (rule trackpoint_without_time_raises)
qed

text \<open>
  The claim as stated names MissingFieldError; a trackpoint that has a cadence and no
  time ends in AttributeError.
\<close>

theorem trackpoint_without_time_counterexample:
  "get_tcx_trackpoint_data example_lib
     (node (ns ''Trackpoint'') [leaf (ns ''Cadence'') ''20'']) = Inl AttributeError"
  by (simp add: get_tcx_trackpoint_data_def find_child_def node_def leaf_def ns_def)

section \<open>The optional fields of the extractors\<close>










lemma opt_fields_fails:
  "\<not> fields_convert fs e \<Longrightarrow> \<exists>err. opt_fields fs e d = Inl err"
proof (induction fs arbitrary: d)
  case Nil
  then show ?case by (simp add: fields_convert_def)
next
  case (Cons f fs)
  obtain k conv t where f: "f = (k, conv, t)" by (cases f)
  show ?case
  proof (cases "opt_field k conv (find_child t e) d")
    case (Inl a)
    then show ?thesis by (simp add: f)
  next
    case (Inr d1)
    then have "case find_child t e of None \<Rightarrow> True | Some c \<Rightarrow> is_ok (conv c)"
      by (cases "find_child t e") (auto simp: is_ok_def and_then_Inr_iff)
    with Cons.prems have "\<not> fields_convert fs e" by (simp add: f fields_convert_def)
    from Cons.IH[OF this] Inr show ?thesis by (simp add: f)
  qed
qed

text \<open>The definitions that evaluating an example unfolds.\<close>

lemmas example_eval =
  node_def leaf_def ns_def ns3_def NAMESPACES_def find_child_def find_rec_def findall_def
  example_lib_def example_float_lit_def example_int_lit_def nat_lit_def digit_val_def
  py_float_def py_int_def float_text_def int_text_def value_of_def watt_text_def
  convert_local_def strip_def is_space_def

section \<open>The keys of an extracted lap\<close>



section \<open>An empty power element\<close>






section \<open>Where the trackpoint fields are looked up\<close>







section \<open>The columns of the returned tables\<close>

lemma set_index_number:
  "set_index ''number'' (DataFrame laps_data LAPS_COLUMN_NAMES) =
     Inr \<lparr>df_index_name = Some ''number'',
          df_index = map (\<lambda>d. map_of d ''number'') laps_data,
          df_columns = [''start_time'', ''distance'', ''calories'', ''total_time'', ''max_speed'',
                        ''max_hr'', ''avg_hr''],
          df_rows = map (\<lambda>d. map (map_of d)
                      [''start_time'', ''distance'', ''calories'', ''total_time'', ''max_speed'',
                       ''max_hr'', ''avg_hr'']) laps_data\<rparr>"
  by (simp add: set_index_def DataFrame_def LAPS_COLUMN_NAMES_def drop_nth_def)





section \<open>The first child of the activities container\<close>




section \<open>A lap without a track\<close>

lemma laps_loop_no_track:
  "lap \<in> set laps \<Longrightarrow> find_child (ns ''Track'') lap = None \<Longrightarrow>
   \<exists>e. laps_loop L n laps st = Inl e"
proof (induction laps arbitrary: n st)
  case Nil
  then show ?case by simp
next
  case (Cons l rest)
  obtain ld pd where st: "st = (ld, pd)" by (cases st)
  show ?case
  proof (cases "get_tcx_lap_data L l")
    case (Inl e)
    then show ?thesis by (simp add: st)
  next
    case (Inr d)
    show ?thesis
    proof (cases "find_child (ns ''Track'') l")
      case None
      then show ?thesis using Inr by (simp add: st)
    next
      case (Some track)
      with Cons.prems have mem: "lap \<in> set rest" by auto
      show ?thesis
      proof (cases "points_loop L n (findall (ns ''Trackpoint'') track) pd")
        case (Inl e)
        then show ?thesis using Inr Some by (simp add: st)
      next
        case (Inr pd')
        from Cons.IH[OF mem Cons.prems(2)] show ?thesis
          using \<open>get_tcx_lap_data L l = Inr d\<close> Some Inr by (simp add: st)
      qed
    qed
  qed
qed

text \<open>
  Claim C10. When a lap of the walked activity has no \<open>Track\<close> child, \<open>get_dataframes\<close>
  fails for the whole file; the step of the loop that reaches such a lap after its own
  fields are extracted raises AttributeError, so the lap is neither skipped nor taken
  as a lap without trackpoints. A lap whose \<open>Track\<close> is present and holds no
  \<open>Trackpoint\<close> is appended to the laps with its number, adds no trackpoint row, and the
  loop goes on with the next number.
\<close>

theorem lap_without_track_fails:
  "(first_activity root = Inr activity \<and> lap \<in> set (findall (ns ''Lap'') activity) \<and>
      find_child (ns ''Track'') lap = None \<longrightarrow> (\<exists>e. get_dataframes L root = Inl e)) \<and>
   (get_tcx_lap_data L lap = Inr d \<and> find_child (ns ''Track'') lap = None \<longrightarrow>
      laps_loop L n (lap # rest) (laps_data, points_data) = Inl AttributeError) \<and>
   (get_tcx_lap_data L lap = Inr d \<and> find_child (ns ''Track'') lap = Some track \<and>
      findall (ns ''Trackpoint'') track = [] \<longrightarrow>
      laps_loop L n (lap # rest) (laps_data, points_data) =
        laps_loop L (n + 1) rest
          (laps_data @ [AList.update ''number'' (PInt n) d], points_data))"
proof (intro conjI impI)
  assume a: "first_activity root = Inr activity \<and> lap \<in> set (findall (ns ''Lap'') activity) \<and>
      find_child (ns ''Track'') lap = None"
  then obtain e where "laps_loop L 1 (findall (ns ''Lap'') activity) ([], []) = Inl e"
    using laps_loop_no_track by blast
  with a show "\<exists>e. get_dataframes L root = Inl e"
    by (simp add: get_dataframes_def collect_def)
qed simp_all

text \<open>
  An activity with two laps, the first with an empty track and the second without a
  track: the file fails, by the second lap; the first lap alone gives its row and no
  trackpoint.
\<close>

theorem lap_without_track_fails_witness:
  "(\<exists>e. get_dataframes example_lib example_doc_no_track = Inl e) \<and>
   laps_loop example_lib 1
     [Element (ns ''Lap'') [(''StartTime'', ''2022-01-03T14:10:00Z'')] None
        [leaf (ns ''Calories'') ''12'']] ([], []) = Inl AttributeError \<and>
   laps_loop example_lib 1
     [Element (ns ''Lap'') [(''StartTime'', ''2022-01-03T14:00:00Z'')] None
        [node (ns ''Track'') []]] ([], []) =
     Inr ([[(''start_time'', PTime 1641222000000000), (''number'', PInt 1)]], [])"
proof -
  let ?l1 = "Element (ns ''Lap'') [(''StartTime'', ''2022-01-03T14:00:00Z'')] None
        [node (ns ''Track'') []]"
  let ?l2 = "Element (ns ''Lap'') [(''StartTime'', ''2022-01-03T14:10:00Z'')] None
        [leaf (ns ''Calories'') ''12'']"
  let ?act = "node (ns ''Activity'') [?l1, ?l2]"
  have a: "first_activity example_doc_no_track = Inr ?act"
    by (simp add: example_doc_no_track_def first_activity_def example_eval)
  have b: "?l2 \<in> set (findall (ns ''Lap'') ?act)"
    by (simp add: example_eval)
  have c: "find_child (ns ''Track'') ?l2 = None"
    by (simp add: example_eval)
  have d2: "get_tcx_lap_data example_lib ?l2 =
      Inr [(''start_time'', PTime 1641222600000000), (''calories'', PInt 12)]"
    by (simp add: get_tcx_lap_data_def example_eval)
  have d1: "get_tcx_lap_data example_lib ?l1 = Inr [(''start_time'', PTime 1641222000000000)]"
    by (simp add: get_tcx_lap_data_def example_eval)
  have e: "find_child (ns ''Track'') ?l1 = Some (node (ns ''Track'') [])"
    by (simp add: example_eval)
  have f: "findall (ns ''Trackpoint'') (node (ns ''Track'') []) = []"
    by (simp add: example_eval)
  note t2 = lap_without_track_fails[of example_doc_no_track ?act ?l2 example_lib
      "[(''start_time'', PTime 1641222600000000), (''calories'', PInt 12)]" 1 "[]" "[]" "[]"]
  note t1 = lap_without_track_fails[of example_doc_no_track ?act ?l1 example_lib
      "[(''start_time'', PTime 1641222000000000)]" 1 "[]" "[]" "[]" "node (ns ''Track'') []"]
  have 1: "\<exists>e. get_dataframes example_lib example_doc_no_track = Inl e"
    using t2 a b c by blast
  have 2: "laps_loop example_lib 1 [?l2] ([], []) = Inl AttributeError"
    using t2 d2 c by blast
  have "laps_loop example_lib 1 [?l1] ([], []) =
      laps_loop example_lib (1 + 1) []
        ([] @ [AList.update ''number'' (PInt 1) [(''start_time'', PTime 1641222000000000)]], [])"
    using t1 d1 e f by blast
  then have 3: "laps_loop example_lib 1 [?l1] ([], []) =
      Inr ([[(''start_time'', PTime 1641222000000000), (''number'', PInt 1)]], [])"
    by simp
  from 1 2 3 show ?thesis by blast
qed

section \<open>Lap numbers and the stamps of the trackpoints\<close>










section \<open>The offset between the devices and the shift\<close>







text \<open>The definitions that evaluating the alignment on an example unfolds.\<close>

lemmas table_eval =
  align_def column_def series_min_def map_filter_def time_key_def shift_column_def
  shift_cell_def select_def merge_asof_def Let_def
  example_laps_a_def example_points_a_def example_laps_b_def example_points_b_def

lemma example_align:
  "align (example_laps_a, example_points_a) example_laps_b example_points_b =
     Inr \<lparr>laps_df_garmin = example_laps_a,
          points_df_garmin = example_points_a,
          total_seconds = 125000000,
          laps_df_concept2 =
            \<lparr>df_index_name = Some ''number'', df_index = [Some (PInt 1)],
             df_columns = [''start_time'', ''distance'', ''calories'', ''total_time'',
                           ''max_speed'', ''max_hr'', ''avg_hr''],
             df_rows = [[Some (PTime 36005000000), None, None, None, None, None, None]]\<rparr>,
          points_df_concept2 =
            \<lparr>df_index_name = None, df_index = [Some (PInt 0), Some (PInt 1)],
             df_columns = [''time'', ''distance'', ''heart_rate'', ''watt'', ''cadence''],
             df_rows =
               [[Some (PTime 36008000000), Some (PFloat (Decimal 105 1)), None,
                 Some (PFloat (Decimal 180 0)), None],
                [Some (PTime 36017000000), Some (PFloat (Decimal 420 1)), None,
                 Some (PFloat (Decimal 185 0)), None]]\<rparr>,
          merged_dataframe =
            \<lparr>df_index_name = None, df_index = [Some (PInt 0), Some (PInt 1)],
             df_columns = [''time'', ''distance'', ''watt'', ''cadence'', ''heart_rate''],
             df_rows =
               [[Some (PTime 36008000000), Some (PFloat (Decimal 105 1)),
                 Some (PFloat (Decimal 180 0)), None, None],
                [Some (PTime 36017000000), Some (PFloat (Decimal 420 1)),
                 Some (PFloat (Decimal 185 0)), None, None]]\<rparr>\<rparr>"
  by (simp add: table_eval upt_rec)


text \<open>
  The tables that \<open>main\<close> passes to the alignment are well formed: they are built by
  \<open>get_dataframes\<close>, concatenated and sorted.
\<close>

lemma get_dataframes_wf:
  assumes "get_dataframes L root = Inr (laps_df, points_df)"
  shows "wf_frame laps_df \<and> wf_frame points_df \<and>
         df_columns laps_df = [''start_time'', ''distance'', ''calories'', ''total_time'',
                               ''max_speed'', ''max_hr'', ''avg_hr''] \<and>
         df_columns points_df = [''time'', ''distance'', ''heart_rate'', ''watt'', ''cadence'']"
proof -
  from assms obtain laps_data points_data where
    "laps_df = \<lparr>df_index_name = Some ''number'',
          df_index = map (\<lambda>d. map_of d ''number'') laps_data,
          df_columns = [''start_time'', ''distance'', ''calories'', ''total_time'', ''max_speed'',
                        ''max_hr'', ''avg_hr''],
          df_rows = map (\<lambda>d. map (map_of d)
                      [''start_time'', ''distance'', ''calories'', ''total_time'', ''max_speed'',
                       ''max_hr'', ''avg_hr'']) laps_data\<rparr>"
    "points_df = DataFrame points_data TRACKPOINT_COLUMN_NAMES"
    by (auto simp: get_dataframes_def and_then_Inr_iff set_index_number)
  then show ?thesis
    by (simp add: wf_frame_def DataFrame_def TRACKPOINT_COLUMN_NAMES_def list_all_iff)
qed

lemma load_loop_wf:
  assumes "load_loop L files (concept2, garmin) = Inr (concept2', garmin')"
    and "\<forall>t \<in> set concept2. wf_frame (fst t) \<and> wf_frame (snd t) \<and>
           df_columns (fst t) = cl \<and> df_columns (snd t) = cp"
    and "cl = [''start_time'', ''distance'', ''calories'', ''total_time'',
               ''max_speed'', ''max_hr'', ''avg_hr'']"
    and "cp = [''time'', ''distance'', ''heart_rate'', ''watt'', ''cadence'']"
  shows "\<forall>t \<in> set concept2'. wf_frame (fst t) \<and> wf_frame (snd t) \<and>
           df_columns (fst t) = cl \<and> df_columns (snd t) = cp"
  using assms(1,2)
proof (induction files arbitrary: concept2 garmin)
  case Nil
  then show ?case by simp
next
  case (Cons f files)
  obtain fname root where f: "f = (fname, root)" by (cases f)
  from Cons.prems(1) obtain c1 g1 where
    c1: "(if startswith fname ''concept2''
          then and_then (get_dataframes L root) (\<lambda>t. Inr (concept2 @ [t]))
          else Inr concept2) = Inr c1"
    and rest: "load_loop L files (c1, g1) = Inr (concept2', garmin')"
    by (auto simp: f and_then_Inr_iff)
  have "\<forall>t \<in> set c1. wf_frame (fst t) \<and> wf_frame (snd t) \<and>
           df_columns (fst t) = cl \<and> df_columns (snd t) = cp"
  proof (cases "startswith fname ''concept2''")
    case True
    with c1 obtain t where t: "get_dataframes L root = Inr t" and "c1 = concept2 @ [t]"
      by (auto simp: and_then_Inr_iff)
    moreover from t get_dataframes_wf[of L root "fst t" "snd t"]
    have "wf_frame (fst t) \<and> wf_frame (snd t) \<and> df_columns (fst t) = cl \<and> df_columns (snd t) = cp"
      by (simp add: assms(3,4))
    ultimately show ?thesis using Cons.prems(2) by auto
  next
    case False
    with c1 Cons.prems(2) show ?thesis by simp
  qed
  from Cons.IH[OF rest this] show ?case .
qed

lemma concat_frames_wf:
  assumes "concat_frames dfs = Inr df"
    and "\<forall>d \<in> set dfs. wf_frame d \<and> df_columns d = cols"
  shows "wf_frame df \<and> df_columns df = cols"
  using assms
  by (cases dfs) (auto simp: concat_frames_def wf_frame_def list_all_iff)

lemma sort_values_wf:
  assumes "sort_values k df = Inr df'" and "wf_frame df"
  shows "wf_frame df' \<and> df_columns df' = df_columns df"
proof -
  from assms(1) obtain j where j: "index_of k (df_columns df) = Some j"
    by (auto simp: sort_values_def split: option.splits)
  let ?labelled = "zip (df_index df) (df_rows df)"
  from assms(1) j have rows: "set (df_rows df') \<subseteq> snd ` set ?labelled"
    and cols: "df_columns df' = df_columns df"
    by (auto simp: sort_values_def Let_def)
  have "snd ` set ?labelled \<subseteq> set (df_rows df)"
    by (auto dest: set_zip_rightD)
  with rows assms(2) cols show ?thesis
    by (auto simp: wf_frame_def list_all_iff)
qed

lemma main_aligns_wf_tables:
  assumes "main L files = Inr r"
  shows "\<exists>garmin laps_c2 points_c2. align garmin laps_c2 points_c2 = Inr r \<and>
           wf_frame laps_c2 \<and> wf_frame points_c2"
proof -
  from assms obtain concept2 garmin laps_all points_all laps_c2 points_c2 g where
    loaded: "load_loop L files ([], None) = Inr (concept2, garmin)"
    and la: "concat_frames (map fst concept2) = Inr laps_all"
    and pa: "concat_frames (map snd concept2) = Inr points_all"
    and ls: "sort_values ''start_time'' laps_all = Inr laps_c2"
    and ps: "sort_values ''time'' points_all = Inr points_c2"
    and al: "align g laps_c2 points_c2 = Inr r"
    by (auto simp: main_def and_then_Inr_iff split: option.splits)
  from load_loop_wf[OF loaded _ refl refl]
  have all: "\<forall>t \<in> set concept2. wf_frame (fst t) \<and> wf_frame (snd t) \<and>
      df_columns (fst t) = [''start_time'', ''distance'', ''calories'', ''total_time'',
               ''max_speed'', ''max_hr'', ''avg_hr''] \<and>
      df_columns (snd t) = [''time'', ''distance'', ''heart_rate'', ''watt'', ''cadence'']"
    by simp
  from concat_frames_wf[OF la] all have "wf_frame laps_all" by auto
  with sort_values_wf[OF ls] have 1: "wf_frame laps_c2" by simp
  from concat_frames_wf[OF pa] all have "wf_frame points_all" by auto
  with sort_values_wf[OF ps] have 2: "wf_frame points_c2" by simp
  from al 1 2 show ?thesis by blast
qed

section \<open>The merge of the two trackpoint streams\<close>

text \<open>
  Claim C1 does not hold of the script. The call is
  \<open>pd.merge_asof(..., on="time", by="time")\<close>: with \<open>by\<close> equal to \<open>on\<close>, a row of
  device A can be joined to a row of device B only when both have the same time, so the
  join carries no observation forward. In the example above the shifted rows of B are
  3 and 12 seconds after A's first sample, A's samples are at 0 seconds (100) and
  10 seconds (110), and both merged rows have a missing heart rate, where the claim has
  100 and 110.
\<close>

theorem merged_heart_rate_missing:
  "map_sum id (\<lambda>r. (column ''time'' (merged_dataframe r), column ''heart_rate'' (merged_dataframe r)))
     (align (example_laps_a, example_points_a) example_laps_b example_points_b) =
     Inr (Inr [Some (PTime 36008000000), Some (PTime 36017000000)], Inr [None, None])"
  by (simp add: example_align column_def)

text \<open>
  The same two tables joined without \<open>by\<close>, that is as an as-of join on \<open>time\<close> alone,
  give the heart rates 100 and 110 of the claim.
\<close>

lemma as_of_join_without_by:
  "and_then (select [''time'', ''heart_rate''] example_points_a) (\<lambda>right.
     merge_asof
       \<lparr>df_index_name = None, df_index = [Some (PInt 0), Some (PInt 1)],
        df_columns = [''time'', ''distance'', ''watt'', ''cadence''],
        df_rows =
          [[Some (PTime 36008000000), Some (PFloat (Decimal 105 1)),
            Some (PFloat (Decimal 180 0)), None],
           [Some (PTime 36017000000), Some (PFloat (Decimal 420 1)),
            Some (PFloat (Decimal 185 0)), None]]\<rparr>
       right ''time'' None) =
   Inr \<lparr>df_index_name = None, df_index = [Some (PInt 0), Some (PInt 1)],
        df_columns = [''time'', ''distance'', ''watt'', ''cadence'', ''heart_rate''],
        df_rows =
          [[Some (PTime 36008000000), Some (PFloat (Decimal 105 1)),
            Some (PFloat (Decimal 180 0)), None, Some (PInt 100)],
           [Some (PTime 36017000000), Some (PFloat (Decimal 420 1)),
            Some (PFloat (Decimal 185 0)), None, Some (PInt 110)]]\<rparr>"
  by (simp add: table_eval upt_rec)

end
